theory Spec2Isabelle
  imports Complex_Main "HOL-Library.Char_ord" "HOL-Library.List_Lexorder" "HOL-Library.Log_Nat"
begin

section \<open>Data model\<close>

text \<open>
  The store is a relational database with the tables \<open>products\<close>, \<open>cards\<close> and
  \<open>orders\<close>. A table is the list of its rows in table order. Timestamps are integers
  (milliseconds); one handler invocation happens at one instant \<open>now\<close>, which stands for
  both SQL \<open>NOW()\<close> and JavaScript \<open>new Date()\<close>. A nullable column is an \<open>option\<close>.
\<close>

type_synonym timestamp = int

record product =
  prod_id :: string
  prod_name :: string
  price :: string
  isActive :: "bool option"
  purchaseLimit :: "int option"

record card =
  card_id :: int
  product_id :: string
  card_key :: string
  is_used :: "bool option"
  reserved_order_id :: "string option"
  reserved_at :: "timestamp option"
  used_at :: "timestamp option"

record order =
  orderId :: string
  productId :: string
  productName :: string
  amount :: string
  email :: "string option"
  userId :: "string option"
  username :: "string option"
  status :: string
  tradeNo :: "string option"
  cardKey :: "string option"
  paidAt :: "timestamp option"
  deliveredAt :: "timestamp option"
  createdAt :: "timestamp option"

text \<open>
  \<open>reservation_columns\<close> says whether the \<open>cards\<close> table already has the columns
  \<open>reserved_order_id\<close> and \<open>reserved_at\<close>: a statement that names them on a table without
  them raises \<open>undefined_column\<close> (SQLSTATE 42703), which the handlers catch. No other
  database failure is modelled. \<open>ldc_pending_order\<close> is the buyer's cookie of that name.
\<close>

record shop =
  products :: "product list"
  cards :: "card list"
  orders :: "order list"
  reservation_columns :: bool
  ldc_pending_order :: "string option"

section \<open>JavaScript values\<close>

text \<open>A string-or-undefined value is a \<open>string option\<close>; \<open>None\<close> is \<open>undefined\<close>/\<open>null\<close>.\<close>

definition truthy :: "string option \<Rightarrow> bool" where
  "truthy v = (case v of None \<Rightarrow> False | Some s \<Rightarrow> s \<noteq> [])"

definition js_or :: "string option \<Rightarrow> string option \<Rightarrow> string option" where
  "js_or a b = (if truthy a then a else b)"

definition to_str :: "string option \<Rightarrow> string" where
  "to_str v = (case v of None \<Rightarrow> ''undefined'' | Some s \<Rightarrow> s)"

fun join :: "string \<Rightarrow> string list \<Rightarrow> string" where
  "join sep [] = []"
| "join sep [x] = x"
| "join sep (x # y # ys) = x @ sep @ join sep (y # ys)"

text \<open>
  A JavaScript number is an IEEE 754 double: a finite value (a rational that is
  representable), an infinity or NaN. The sign of zero is not modelled. \<open>round_double\<close>
  rounds a rational to the nearest double, ties to even: 53 significant bits, the
  smallest step \<open>2 powi -1074\<close>, and an infinity from \<open>2 powi 1024\<close> on.
\<close>

datatype jsnum = NaN | Fin rat | PosInf | NegInf

definition round_even :: "rat \<Rightarrow> int" where
  "round_even m =
     (let f = \<lfloor>m\<rfloor>; d = m - of_int f
      in if d < 1 / 2 then f else if 1 / 2 < d then f + 1 else if even f then f else f + 1)"

text \<open>\<open>ilog2 a\<close> is the binary exponent of a positive \<open>a\<close>: \<open>2 powi e \<le> a < 2 powi (e + 1)\<close>.\<close>

definition ilog2 :: "rat \<Rightarrow> int" where
  "ilog2 a =
     (let (p, q) = quotient_of a; e0 = bitlen p - bitlen q
      in if 2 powi e0 \<le> a then e0 else e0 - 1)"

definition round_double :: "rat \<Rightarrow> jsnum" where
  "round_double x =
     (if x = 0 then Fin 0
      else
        let a = \<bar>x\<bar>; e = ilog2 a; q = max (e - 52) (- 1074); n = round_even (a / 2 powi q)
        in if 1024 \<le> e \<or> (e = 1023 \<and> n = 2 ^ 53) then (if x < 0 then NegInf else PosInf)
           else Fin (sgn x * of_int n * 2 powi q))"

definition to_double :: "jsnum \<Rightarrow> jsnum" where
  "to_double v = (case v of Fin r \<Rightarrow> round_double r | _ \<Rightarrow> v)"

text \<open>Subtraction of doubles is the exact difference, rounded.\<close>

fun js_sub :: "jsnum \<Rightarrow> jsnum \<Rightarrow> jsnum" where
  "js_sub NaN _ = NaN"
| "js_sub _ NaN = NaN"
| "js_sub (Fin a) (Fin b) = round_double (a - b)"
| "js_sub (Fin a) PosInf = NegInf"
| "js_sub (Fin a) NegInf = PosInf"
| "js_sub PosInf PosInf = NaN"
| "js_sub PosInf _ = PosInf"
| "js_sub NegInf NegInf = NaN"
| "js_sub NegInf _ = NegInf"

fun js_abs :: "jsnum \<Rightarrow> jsnum" where
  "js_abs NaN = NaN"
| "js_abs (Fin a) = Fin \<bar>a\<bar>"
| "js_abs PosInf = PosInf"
| "js_abs NegInf = PosInf"

fun js_gt :: "jsnum \<Rightarrow> jsnum \<Rightarrow> bool" where
  "js_gt NaN _ = False"
| "js_gt _ NaN = False"
| "js_gt (Fin a) (Fin b) = (b < a)"
| "js_gt (Fin a) PosInf = False"
| "js_gt (Fin a) NegInf = True"
| "js_gt PosInf PosInf = False"
| "js_gt PosInf _ = True"
| "js_gt NegInf _ = False"

definition is_ws :: "char \<Rightarrow> bool" where
  "is_ws c = ((of_char c :: nat) \<in> {9, 10, 11, 12, 13, 32})"

definition is_digit :: "char \<Rightarrow> bool" where
  "is_digit c = (CHR ''0'' \<le> c \<and> c \<le> CHR ''9'')"

definition digits_val :: "string \<Rightarrow> int" where
  "digits_val ds = foldl (\<lambda>n c. 10 * n + (of_char c - 48)) 0 ds"

definition take_sign :: "string \<Rightarrow> bool \<times> string" where
  "take_sign s =
     (case s of
        [] \<Rightarrow> (False, s)
      | c # r \<Rightarrow> if c = CHR ''-'' then (True, r) else if c = CHR ''+'' then (False, r) else (False, s))"

definition parse_exponent :: "string \<Rightarrow> int" where
  "parse_exponent s =
     (case s of
        [] \<Rightarrow> 0
      | c # r \<Rightarrow>
          if c = CHR ''e'' \<or> c = CHR ''E'' then
            (let (neg, r') = take_sign r; ds = takeWhile is_digit r'
             in if ds = [] then 0 else if neg then - digits_val ds else digits_val ds)
          else 0)"

definition scale10 :: "rat \<Rightarrow> int \<Rightarrow> rat" where
  "scale10 m e = (if 0 \<le> e then m * 10 ^ nat e else m / 10 ^ nat (- e))"

text \<open>
  \<open>decimal_value\<close> is the exact value of the text \<open>parseFloat\<close> reads: skip leading
  white space, then read the longest prefix that is a decimal literal (sign,
  \<open>Infinity\<close> or digits with an optional fraction and exponent); NaN when there is
  none. \<open>parseFloat\<close> is that value as a double.
\<close>

definition decimal_value :: "string \<Rightarrow> jsnum" where
  "decimal_value input =
     (let (neg, s1) = take_sign (dropWhile is_ws input)
      in if take 8 s1 = ''Infinity'' then (if neg then NegInf else PosInf)
         else
           let ip = takeWhile is_digit s1;
               r1 = dropWhile is_digit s1;
               (fp, r2) = (case r1 of
                             [] \<Rightarrow> ([], r1)
                           | c # r \<Rightarrow> if c = CHR ''.''
                                      then (takeWhile is_digit r, dropWhile is_digit r)
                                      else ([], r1))
           in if ip = [] \<and> fp = [] then NaN
              else
                let m = of_int (digits_val ip) + of_int (digits_val fp) / 10 ^ length fp;
                    v = scale10 m (parse_exponent r2)
                in Fin (if neg then - v else v))"

definition parseFloat :: "string \<Rightarrow> jsnum" where
  "parseFloat input = to_double (decimal_value input)"

section \<open>Settlement: the payment notification handler\<close>

text \<open>
  The notification parameters are a JavaScript object with string values: the list of
  its own entries in insertion order.
\<close>

type_synonym params = "(string \<times> string) list"

definition get :: "params \<Rightarrow> string \<Rightarrow> string option" where
  "get params k = map_of params k"

definition sorted_query :: "params \<Rightarrow> string" where
  "sorted_query params =
     join ''&''
       (map (\<lambda>k. k @ ''='' @ to_str (get params k))
          (sort (filter (\<lambda>k. k \<noteq> ''sign'' \<and> k \<noteq> ''sign_type'' \<and> get params k \<noteq> Some [] \<and> get params k \<noteq> None)
                   (map fst params))))"

text \<open>
  The process environment. \<open>md5\<close> of the signature check comes from the crypto
  library, which is a parameter.
\<close>

record env =
  MERCHANT_ID :: "string option"
  MERCHANT_KEY :: "string option"
  NEXT_PUBLIC_APP_URL :: "string option"
  VERCEL_URL :: "string option"
  PAY_URL :: "string option"

definition sign_ok :: "(string \<Rightarrow> string) \<Rightarrow> env \<Rightarrow> params \<Rightarrow> bool" where
  "sign_ok md5 e params =
     (get params ''sign'' = Some (md5 (sorted_query params @ to_str (MERCHANT_KEY e))))"

datatype response = Response string int

definition findOrder :: "string \<Rightarrow> shop \<Rightarrow> order option" where
  "findOrder oid db = find (\<lambda>r. orderId r = oid) (orders db)"

text \<open>
  The amount gate: \<open>Math.abs(notifyMoney - orderMoney) > 0.01\<close>, in double arithmetic;
  the literal \<open>0.01\<close> is the double nearest to 1/100.
\<close>

definition amount_mismatch :: "params \<Rightarrow> order \<Rightarrow> bool" where
  "amount_mismatch params ord =
     js_gt (js_abs (js_sub (parseFloat (to_str (get params ''money''))) (parseFloat (amount ord))))
       (round_double (1 / 100))"

definition unused :: "card \<Rightarrow> bool" where
  "unused c = (is_used c \<noteq> Some True)"

definition hold_free :: "timestamp \<Rightarrow> card \<Rightarrow> bool" where
  "hold_free now c = (case reserved_at c of None \<Rightarrow> True | Some t \<Rightarrow> t < now - 60000)"

definition consume :: "timestamp \<Rightarrow> card \<Rightarrow> card" where
  "consume now c = c\<lparr>is_used := Some True, used_at := Some now,
                     reserved_order_id := None, reserved_at := None\<rparr>"

text \<open>
  \<open>UPDATE ... WHERE id = (SELECT id ... LIMIT 1)\<close>: \<open>id\<close> is the primary key, so the
  statement changes the one selected row. SQL leaves open which matching row \<open>LIMIT 1\<close>
  selects; the model takes the first match in table order.
\<close>

fun update_first :: "('a \<Rightarrow> bool) \<Rightarrow> ('a \<Rightarrow> 'a) \<Rightarrow> 'a list \<Rightarrow> 'a list" where
  "update_first P f [] = []"
| "update_first P f (x # xs) = (if P x then f x # xs else x # update_first P f xs)"

definition first_key :: "card list \<Rightarrow> string option" where
  "first_key rows = (case rows of [] \<Rightarrow> None | c # _ \<Rightarrow> Some (card_key c))"

text \<open>The first statement of the transaction: finalize every unit the order holds.\<close>

definition held_by :: "string \<Rightarrow> card \<Rightarrow> bool" where
  "held_by oid c = (reserved_order_id c = Some oid \<and> unused c)"

definition finalizeHeld :: "timestamp \<Rightarrow> string \<Rightarrow> card list \<Rightarrow> card list \<times> string option" where
  "finalizeHeld now oid cs =
     (map (\<lambda>c. if held_by oid c then consume now c else c) cs,
      first_key (filter (held_by oid) cs))"

text \<open>The fallback claim of any free or expired-hold unit of the product.\<close>

definition claimable :: "timestamp \<Rightarrow> string \<Rightarrow> card \<Rightarrow> bool" where
  "claimable now pid c = (product_id c = pid \<and> unused c \<and> hold_free now c)"

definition claimFree :: "timestamp \<Rightarrow> string \<Rightarrow> card list \<Rightarrow> card list \<times> string option" where
  "claimFree now pid cs =
     (update_first (claimable now pid) (consume now) cs,
      first_key (filter (claimable now pid) cs))"

text \<open>The legacy claim, the statement issued when \<open>supportsReservation\<close> is false.\<close>

definition legacy_claimable :: "string \<Rightarrow> card \<Rightarrow> bool" where
  "legacy_claimable pid c = (product_id c = pid \<and> unused c)"

definition claimLegacy :: "timestamp \<Rightarrow> string \<Rightarrow> card list \<Rightarrow> card list \<times> string option" where
  "claimLegacy now pid cs =
     (update_first (legacy_claimable pid) (\<lambda>c. c\<lparr>is_used := Some True, used_at := Some now\<rparr>) cs,
      first_key (filter (legacy_claimable pid) cs))"

text \<open>
  The card part of the transaction. A \<open>cardKey\<close> that is \<open>undefined\<close> or the empty string
  is falsy, so the fallback claim runs after it. On a table without the reservation
  columns the first \<open>UPDATE\<close> raises \<open>undefined_column\<close>; the handler catches it and
  sets \<open>supportsReservation\<close> to false, but the database has aborted the transaction, so
  the next statement (the legacy claim) raises in turn and that error leaves the
  transaction, which is rolled back: the result is \<open>None\<close>.
\<close>

definition claimCard :: "timestamp \<Rightarrow> string \<Rightarrow> string \<Rightarrow> shop \<Rightarrow> (card list \<times> string option) option" where
  "claimCard now oid pid db =
     (if reservation_columns db
      then (let (cs1, key1) = finalizeHeld now oid (cards db)
            in if truthy key1 then Some (cs1, key1) else Some (claimFree now pid cs1))
      else None)"

text \<open>
  The order part. A field set to \<open>undefined\<close> is left out of the \<open>UPDATE\<close>, so a
  notification without \<open>trade_no\<close> keeps the order's old value.
\<close>

definition set_tradeNo :: "string option \<Rightarrow> order \<Rightarrow> order" where
  "set_tradeNo t ord = (case t of None \<Rightarrow> ord | Some _ \<Rightarrow> ord\<lparr>tradeNo := t\<rparr>)"

definition deliver :: "timestamp \<Rightarrow> string option \<Rightarrow> string option \<Rightarrow> order \<Rightarrow> order" where
  "deliver now t k ord =
     set_tradeNo t (ord\<lparr>status := ''delivered'', paidAt := Some now, deliveredAt := Some now,
                        cardKey := k\<rparr>)"

definition mark_paid :: "timestamp \<Rightarrow> string option \<Rightarrow> order \<Rightarrow> order" where
  "mark_paid now t ord = set_tradeNo t (ord\<lparr>status := ''paid'', paidAt := Some now\<rparr>)"

definition settle :: "timestamp \<Rightarrow> string \<Rightarrow> string option \<Rightarrow> order \<Rightarrow> shop \<Rightarrow> shop option" where
  "settle now oid t ord db =
     (case claimCard now oid (productId ord) db of
        None \<Rightarrow> None
      | Some (cs, key) \<Rightarrow>
          Some (db\<lparr>cards := cs,
                   orders := map (\<lambda>r. if orderId r = oid
                                       then (if truthy key then deliver now t key r
                                             else mark_paid now t r)
                                       else r) (orders db)\<rparr>))"

text \<open>
  An \<open>out_trade_no\<close> that is \<open>undefined\<close> is bound as SQL \<open>NULL\<close>, which equals no
  \<open>order_id\<close>: no order is found. An error that leaves \<open>processNotify\<close> is caught by the
  \<open>GET\<close> and \<open>POST\<close> handlers that call it, which answer \<open>error\<close> with status 500;
  \<open>processNotify\<close> here gives the handler's answer.
\<close>

definition processNotify ::
  "(string \<Rightarrow> string) \<Rightarrow> env \<Rightarrow> timestamp \<Rightarrow> params \<Rightarrow> shop \<Rightarrow> response \<times> shop" where
  "processNotify md5 e now params db =
     (if \<not> sign_ok md5 e params then (Response ''fail'' 400, db)
      else if get params ''trade_status'' = Some ''TRADE_SUCCESS'' then
        (case get params ''out_trade_no'' of
           None \<Rightarrow> (Response ''success'' 200, db)
         | Some oid \<Rightarrow>
            (case findOrder oid db of
               None \<Rightarrow> (Response ''success'' 200, db)
             | Some ord \<Rightarrow>
                 if amount_mismatch params ord then (Response ''fail'' 400, db)
                 else if status ord = ''pending'' \<or> status ord = ''cancelled''
                 then (case settle now oid (get params ''trade_no'') ord db of
                         None \<Rightarrow> (Response ''error'' 500, db)
                       | Some db' \<Rightarrow> (Response ''success'' 200, db'))
                 else (Response ''success'' 200, db)))
      else (Response ''success'' 200, db))"

section \<open>The expiry reaper\<close>

record filters =
  f_productId :: "string option"
  f_userId :: "string option"
  f_orderId :: "string option"

definition expired :: "timestamp \<Rightarrow> filters \<Rightarrow> order \<Rightarrow> bool" where
  "expired now f r =
     (status r = ''pending''
      \<and> (case createdAt r of None \<Rightarrow> False | Some t \<Rightarrow> t < now - 300000)
      \<and> (case f_productId f of None \<Rightarrow> True | Some p \<Rightarrow> productId r = p)
      \<and> (case f_userId f of None \<Rightarrow> True | Some u \<Rightarrow> userId r = Some u)
      \<and> (case f_orderId f of None \<Rightarrow> True | Some i \<Rightarrow> orderId r = i))"

text \<open>\<open>UPDATE orders SET status = 'cancelled' WHERE ... RETURNING order_id\<close>.\<close>

definition cancelOrders :: "timestamp \<Rightarrow> filters \<Rightarrow> shop \<Rightarrow> shop \<times> string list" where
  "cancelOrders now f db =
     (db\<lparr>orders := map (\<lambda>r. if expired now f r then r\<lparr>status := ''cancelled''\<rparr> else r) (orders db)\<rparr>,
      map orderId (filter (expired now f) (orders db)))"

text \<open>The release of one order's holds: conditioned on the unit being unconsumed.\<close>

definition release :: "card \<Rightarrow> card" where
  "release c = c\<lparr>reserved_order_id := None, reserved_at := None\<rparr>"

definition releaseHold :: "string \<Rightarrow> card list \<Rightarrow> card list" where
  "releaseHold oid cs = map (\<lambda>c. if held_by oid c then release c else c) cs"

definition releaseHolds :: "string list \<Rightarrow> card list \<Rightarrow> card list" where
  "releaseHolds orderIds cs = foldl (\<lambda>acc i. releaseHold i acc) cs orderIds"

text \<open>
  \<open>filter(Boolean)\<close> drops an empty order id from the returned rows. With no id left the
  function returns at once; otherwise it adds the reservation columns where they are
  missing and releases the holds of each id in turn.
\<close>

definition cancelExpiredOrders :: "timestamp \<Rightarrow> filters \<Rightarrow> shop \<Rightarrow> string list \<times> shop" where
  "cancelExpiredOrders now f db =
     (let (db1, rows) = cancelOrders now f db;
          orderIds = filter (\<lambda>i. i \<noteq> []) rows
      in if orderIds = [] then (orderIds, db1)
         else (orderIds, db1\<lparr>cards := releaseHolds orderIds (cards db1), reservation_columns := True\<rparr>))"

section \<open>Order creation\<close>

record user =
  u_id :: "string option"
  u_email :: "string option"
  u_username :: "string option"

text \<open>
  What the crypto library and the JavaScript runtime give one invocation: the order id
  \<open>generateOrderId()\<close> returns, \<open>generateSign\<close>, and \<open>Number(price).toFixed(2)\<close>.
\<close>

record lib =
  generateOrderId :: string
  generateSign :: "(string \<times> string option) list \<Rightarrow> string option \<Rightarrow> string"
  toFixed2 :: "string \<Rightarrow> string"

datatype create_result =
    Failure string
  | Success string "(string \<times> string option) list"
  | Throws

datatype db_error = StockLocked | UndefinedColumn | UniqueViolation

definition getAvailableStock :: "timestamp \<Rightarrow> string \<Rightarrow> shop \<Rightarrow> nat" where
  "getAvailableStock now pid db = length (filter (claimable now pid) (cards db))"

definition ensureCardsReservationColumns :: "shop \<Rightarrow> shop" where
  "ensureCardsReservationColumns db = db\<lparr>reservation_columns := True\<rparr>"

definition ensureCardsIsUsedDefaults :: "shop \<Rightarrow> shop" where
  "ensureCardsIsUsedDefaults db =
     db\<lparr>cards := map (\<lambda>c. if is_used c = None then c\<lparr>is_used := Some False\<rparr> else c) (cards db)\<rparr>"

text \<open>Step 2: the stock count, with the repair of a legacy schema.\<close>

definition checkStock :: "timestamp \<Rightarrow> string \<Rightarrow> shop \<Rightarrow> nat \<times> shop" where
  "checkStock now pid db =
     (let db1 = (if reservation_columns db then db else ensureCardsReservationColumns db);
          stock = getAvailableStock now pid db1
      in if stock \<le> 0 then
           (if 0 < length (filter (\<lambda>c. product_id c = pid \<and> is_used c = None) (cards db1))
            then (getAvailableStock now pid (ensureCardsIsUsedDefaults db1), ensureCardsIsUsedDefaults db1)
            else (stock, db1))
         else (stock, db1))"

text \<open>Step 3: the purchase limit.\<close>

definition buyer_matches :: "string option \<Rightarrow> string option \<Rightarrow> order \<Rightarrow> bool" where
  "buyer_matches currentUserId currentUserEmail r =
     ((truthy currentUserId \<and> userId r = currentUserId)
      \<or> (truthy currentUserEmail \<and> email r = currentUserEmail))"

definition existingCount :: "string \<Rightarrow> string option \<Rightarrow> string option \<Rightarrow> shop \<Rightarrow> int" where
  "existingCount pid currentUserId currentUserEmail db =
     int (length (filter (\<lambda>r. productId r = pid
                              \<and> buyer_matches currentUserId currentUserEmail r
                              \<and> (status r = ''paid'' \<or> status r = ''delivered'')) (orders db)))"

definition currentUserId :: "user option \<Rightarrow> string option" where
  "currentUserId usr = (case usr of None \<Rightarrow> None | Some u \<Rightarrow> u_id u)"

definition currentUserEmail :: "user option \<Rightarrow> string option \<Rightarrow> string option" where
  "currentUserEmail usr mail = js_or mail (case usr of None \<Rightarrow> None | Some u \<Rightarrow> u_email u)"

definition limitExceeded :: "user option \<Rightarrow> string option \<Rightarrow> product \<Rightarrow> string \<Rightarrow> shop \<Rightarrow> bool" where
  "limitExceeded usr mail product pid db =
     (case purchaseLimit product of
        None \<Rightarrow> False
      | Some l \<Rightarrow>
          if 0 < l then
            (if truthy (currentUserId usr) \<or> truthy (currentUserEmail usr mail)
             then l \<le> existingCount pid (currentUserId usr) (currentUserEmail usr mail) db
             else False)
          else False)"

text \<open>
  Step 4: the transaction that reserves a unit and inserts the order. A raised error
  rolls the transaction back. \<open>order_id\<close> is the primary key of \<open>orders\<close>.
\<close>

definition newOrder :: "timestamp \<Rightarrow> string \<Rightarrow> product \<Rightarrow> user option \<Rightarrow> string option \<Rightarrow> order" where
  "newOrder now oid product usr mail =
     \<lparr>orderId = oid, productId = prod_id product, productName = prod_name product,
      amount = price product,
      email = js_or (currentUserEmail usr mail) None,
      userId = js_or (currentUserId usr) None,
      username = js_or (case usr of None \<Rightarrow> None | Some u \<Rightarrow> u_username u) None,
      status = ''pending'', tradeNo = None, cardKey = None, paidAt = None, deliveredAt = None,
      createdAt = Some now\<rparr>"

definition reserveCard :: "timestamp \<Rightarrow> string \<Rightarrow> string \<Rightarrow> card list \<Rightarrow> card list" where
  "reserveCard now oid pid cs =
     update_first (claimable now pid)
       (\<lambda>c. c\<lparr>reserved_order_id := Some oid, reserved_at := Some now\<rparr>) cs"

definition reserveAndCreate ::
  "timestamp \<Rightarrow> string \<Rightarrow> string \<Rightarrow> product \<Rightarrow> user option \<Rightarrow> string option \<Rightarrow> shop \<Rightarrow> db_error + shop" where
  "reserveAndCreate now oid pid product usr mail db =
     (if \<not> reservation_columns db then Inl UndefinedColumn
      else if filter (claimable now pid) (cards db) = [] then Inl StockLocked
      else if oid \<in> set (map orderId (orders db)) then Inl UniqueViolation
      else Inr (db\<lparr>cards := reserveCard now oid pid (cards db),
                    orders := orders db @ [newOrder now oid product usr mail]\<rparr>))"

text \<open>Steps 5 and 6: the pending cookie and the payment descriptor.\<close>

definition payDescriptor :: "lib \<Rightarrow> env \<Rightarrow> string \<Rightarrow> product \<Rightarrow> create_result" where
  "payDescriptor l e oid product =
     (let baseUrl = (if truthy (NEXT_PUBLIC_APP_URL e) then to_str (NEXT_PUBLIC_APP_URL e)
                     else if truthy (VERCEL_URL e) then ''https://'' @ to_str (VERCEL_URL e)
                     else ''http://localhost:3000'');
          payParams = [(''pid'', MERCHANT_ID e), (''type'', Some ''epay''),
                       (''out_trade_no'', Some oid),
                       (''notify_url'', Some (baseUrl @ ''/api/notify'')),
                       (''return_url'', Some (baseUrl @ ''/callback/'' @ oid)),
                       (''name'', Some (prod_name product)),
                       (''money'', Some (toFixed2 l (price product))),
                       (''sign_type'', Some ''MD5'')]
      in Success (if truthy (PAY_URL e) then to_str (PAY_URL e)
                  else ''https://credit.linux.do/epay/pay/submit.php'')
                 (payParams @ [(''sign'', Some (generateSign l payParams (MERCHANT_KEY e)))]))"

definition finish :: "lib \<Rightarrow> env \<Rightarrow> string \<Rightarrow> product \<Rightarrow> shop \<Rightarrow> create_result \<times> shop" where
  "finish l e oid product db = (payDescriptor l e oid product, db\<lparr>ldc_pending_order := Some oid\<rparr>)"

definition createOrder ::
  "lib \<Rightarrow> env \<Rightarrow> user option \<Rightarrow> timestamp \<Rightarrow> string \<Rightarrow> string option \<Rightarrow> shop \<Rightarrow> create_result \<times> shop" where
  "createOrder l e usr now pid mail db0 =
     (case find (\<lambda>p. prod_id p = pid) (products db0) of
        None \<Rightarrow> (Failure ''buy.productNotFound'', db0)
      | Some product \<Rightarrow>
          let db1 = snd (cancelExpiredOrders now \<lparr>f_productId = Some pid, f_userId = None, f_orderId = None\<rparr> db0);
              (stock, db2) = checkStock now pid db1
          in if stock \<le> 0 then (Failure ''buy.outOfStock'', db2)
             else if limitExceeded usr mail product pid db2 then (Failure ''buy.limitExceeded'', db2)
             else
               let oid = generateOrderId l
               in case reserveAndCreate now oid pid product usr mail db2 of
                    Inr db3 \<Rightarrow> finish l e oid product db3
                  | Inl StockLocked \<Rightarrow> (Failure ''buy.stockLocked'', db2)
                  | Inl UndefinedColumn \<Rightarrow>
                      (case reserveAndCreate now oid pid product usr mail (ensureCardsReservationColumns db2) of
                         Inr db3 \<Rightarrow> finish l e oid product db3
                       | Inl StockLocked \<Rightarrow> (Failure ''buy.stockLocked'', ensureCardsReservationColumns db2)
                       | Inl _ \<Rightarrow> (Throws, ensureCardsReservationColumns db2))
                  | Inl UniqueViolation \<Rightarrow> (Throws, db2))"

section \<open>Properties and example states\<close>



text \<open>
  Consumed is terminal between two states of the \<open>cards\<close> table: the rows are the same
  in number and every row that was consumed is the same row afterwards.
\<close>

definition consumed_kept :: "card list \<Rightarrow> card list \<Rightarrow> bool" where
  "consumed_kept cs cs' =
     (length cs' = length cs
      \<and> (\<forall>i < length cs. is_used (cs ! i) = Some True \<longrightarrow> cs' ! i = cs ! i))"

text \<open>
  An example shop: product \<open>P\<close> (switched off, limit 1) with one consumed unit and one
  unit held by order \<open>O2\<close> since time 100000; buyer \<open>u1\<close> has the delivered order \<open>O0\<close>,
  the pending orders \<open>O1\<close> and \<open>O2\<close> and the cancelled order \<open>O3\<close>. \<open>toy_md5\<close> stands in
  for the digest.
\<close>

definition demo_env :: env where
  "demo_env = \<lparr>MERCHANT_ID = Some ''1001'', MERCHANT_KEY = Some ''k'', NEXT_PUBLIC_APP_URL = None,
                VERCEL_URL = None, PAY_URL = None\<rparr>"

definition toy_md5 :: "string \<Rightarrow> string" where
  "toy_md5 s = rev s"

definition demo_lib :: lib where
  "demo_lib = \<lparr>generateOrderId = ''O4'', generateSign = (\<lambda>ps k. ''sig''), toFixed2 = (\<lambda>s. s)\<rparr>"

definition gateway_notify :: "string \<Rightarrow> string \<Rightarrow> params" where
  "gateway_notify oid money =
     (let ps = [(''money'', money), (''out_trade_no'', oid), (''trade_no'', ''T1''),
                (''trade_status'', ''TRADE_SUCCESS'')]
      in ps @ [(''sign'', toy_md5 (sorted_query ps @ to_str (MERCHANT_KEY demo_env)))])"

definition demo_product :: product where
  "demo_product = \<lparr>prod_id = ''P'', prod_name = ''Gift'', price = ''10.00'', isActive = Some False,
                    purchaseLimit = Some 1\<rparr>"

definition demo_order :: "string \<Rightarrow> string \<Rightarrow> timestamp \<Rightarrow> order" where
  "demo_order oid st t =
     \<lparr>orderId = oid, productId = ''P'', productName = ''Gift'', amount = ''10.00'',
      email = None, userId = Some ''u1'', username = None, status = st, tradeNo = None,
      cardKey = None, paidAt = None, deliveredAt = None, createdAt = Some t\<rparr>"

definition demo_card :: "int \<Rightarrow> bool \<Rightarrow> string option \<Rightarrow> timestamp option \<Rightarrow> card" where
  "demo_card i used holder t =
     \<lparr>card_id = i, product_id = ''P'', card_key = ''K'', is_used = Some used,
      reserved_order_id = holder, reserved_at = t, used_at = None\<rparr>"

definition demo_shop :: shop where
  "demo_shop =
     \<lparr>products = [demo_product],
      cards = [demo_card 0 True None None, demo_card 1 False (Some ''O2'') (Some 100000)],
      orders = [demo_order ''O0'' ''delivered'' 0, demo_order ''O1'' ''pending'' 0,
                demo_order ''O2'' ''pending'' 100000, demo_order ''O3'' ''cancelled'' 0],
      reservation_columns = True, ldc_pending_order = None\<rparr>"

definition demo_user :: user where
  "demo_user = \<lparr>u_id = Some ''u1'', u_email = None, u_username = Some ''alice''\<rparr>"

definition other_user :: user where
  "other_user = \<lparr>u_id = Some ''u2'', u_email = Some ''bob@example.org'', u_username = None\<rparr>"

definition product_filter :: filters where
  "product_filter = \<lparr>f_productId = Some ''P'', f_userId = None, f_orderId = None\<rparr>"

text \<open>
  A settlement racing the reaper: at time 500000 the reaper has cancelled \<open>O1\<close> and \<open>O2\<close>
  but not yet released their holds, and the notification for \<open>O2\<close> is processed.
\<close>

definition raced :: shop where
  "raced = snd (processNotify toy_md5 demo_env 500000 (gateway_notify ''O2'' ''10.00'')
                  (fst (cancelOrders 500000 product_filter demo_shop)))"

section \<open>Lists\<close>




lemma length_update_first: "length (update_first P g xs) = length xs"
  by (induction xs) auto

lemma nth_update_first:
  "i < length xs \<Longrightarrow> \<not> P (xs ! i) \<Longrightarrow> update_first P g xs ! i = xs ! i"
proof (induction xs arbitrary: i)
  case Nil
  then show ?case by simp
next
  case (Cons x xs)
  then show ?case by (cases i) auto
qed


section \<open>Doubles\<close>


lemma bitlen_powi:
  assumes "0 < (p::int)"
  shows "(2::rat) powi (bitlen p - 1) \<le> of_int p" "of_int p < (2::rat) powi bitlen p"
proof -
  from bitlen_bounds[OF assms] have b: "2 ^ nat (bitlen p - 1) \<le> p" "p < 2 ^ nat (bitlen p)"
    by simp_all
  have ge1: "1 \<le> bitlen p" using assms by (simp add: bitlen_alt_def)
  have "(2::rat) powi (bitlen p - 1) = 2 ^ nat (bitlen p - 1)"
    using ge1 by (simp add: power_int_def)
  moreover have "(2::rat) ^ nat (bitlen p - 1) \<le> of_int p"
    using b(1) by (metis of_int_le_iff of_int_numeral of_int_power)
  ultimately show "(2::rat) powi (bitlen p - 1) \<le> of_int p" by simp
  have "(2::rat) powi bitlen p = 2 ^ nat (bitlen p)"
    using ge1 by (simp add: power_int_def)
  moreover have "of_int p < (2::rat) ^ nat (bitlen p)"
    using b(2) by (metis of_int_less_iff of_int_numeral of_int_power)
  ultimately show "of_int p < (2::rat) powi bitlen p" by simp
qed

lemma ilog2_bounds:
  assumes "0 < a"
  shows "2 powi ilog2 a \<le> a" "a < 2 powi (ilog2 a + 1)"
proof -
  obtain p q where pq: "quotient_of a = (p, q)" by force
  then have q: "0 < q" and a: "a = of_int p / of_int q"
    by (simp_all add: quotient_of_denom_pos quotient_of_div)
  have p: "0 < p" using assms q a by (simp add: zero_less_divide_iff)
  define e0 where "e0 = bitlen p - bitlen q"
  note P = bitlen_powi[OF p] and Q = bitlen_powi[OF q]
  have Qpos: "(0::rat) < of_int q" using q by simp
  have Ppos: "(0::rat) < of_int p" using p by simp
  have up: "a < 2 powi (e0 + 1)"
  proof -
    have "a < 2 powi bitlen p / of_int q"
      unfolding a using P(2) Qpos by (simp add: divide_strict_right_mono)
    also have "\<dots> \<le> 2 powi bitlen p / 2 powi (bitlen q - 1)"
      using Q(1) by (intro divide_left_mono) (auto intro!: mult_pos_pos Qpos)
    also have "\<dots> = 2 powi (e0 + 1)"
      by (simp add: e0_def power_int_diff[symmetric] algebra_simps)
    finally show ?thesis .
  qed
  have lo: "2 powi (e0 - 1) \<le> a"
  proof -
    have "(2::rat) powi (e0 - 1) = 2 powi (bitlen p - 1) / 2 powi bitlen q"
      by (simp add: e0_def power_int_diff[symmetric] algebra_simps)
    also have "\<dots> \<le> of_int p / 2 powi bitlen q"
      using P(1) by (intro divide_right_mono) auto
    also have "\<dots> \<le> of_int p / of_int q"
      using Q(2) Qpos Ppos by (intro divide_left_mono) (auto intro!: mult_pos_pos)
    finally show ?thesis unfolding a .
  qed
  have il: "ilog2 a = (if 2 powi e0 \<le> a then e0 else e0 - 1)"
    by (simp add: ilog2_def pq e0_def Let_def)
  show "2 powi ilog2 a \<le> a" using lo by (simp add: il)
  show "a < 2 powi (ilog2 a + 1)" using up by (auto simp: il)
qed

lemma powi_pos: "(0::rat) < 2 powi k"
  by (simp add: power_int_def)


lemma powi_mono: "k \<le> l \<Longrightarrow> (2::rat) powi k \<le> 2 powi l"
  by (rule power_int_increasing) simp_all



text \<open>From \<open>2 powi 1024\<close> on, a value rounds to infinity.\<close>

lemma round_double_overflow:
  assumes "2 powi 1024 \<le> x"
  shows "round_double x = PosInf"
proof -
  have xpos: "0 < x" using assms powi_pos[of 1024] by linarith
  then have ax: "\<bar>x\<bar> = x" by simp
  have "1024 \<le> ilog2 x"
  proof (rule ccontr)
    assume "\<not> 1024 \<le> ilog2 x"
    then have "ilog2 x + 1 \<le> 1024" by simp
    then have "(2::rat) powi (ilog2 x + 1) \<le> 2 powi 1024" by (rule powi_mono)
    with ilog2_bounds(2)[OF xpos] assms show False by linarith
  qed
  then show ?thesis using xpos by (simp add: round_double_def Let_def ax)
qed





section \<open>Settlement\<close>





text \<open>
  On a \<open>cards\<close> table without the reservation columns an eligible order is not
  settled: the transaction is rolled back and the answer is \<open>error\<close>.
\<close>

lemma processNotify_legacy_schema:
  assumes "sign_ok md5 e params"
    and "get params ''trade_status'' = Some ''TRADE_SUCCESS''"
    and "get params ''out_trade_no'' = Some oid"
    and "findOrder oid db = Some ord"
    and "\<not> amount_mismatch params ord"
    and "status ord = ''pending'' \<or> status ord = ''cancelled''"
    and "\<not> reservation_columns db"
  shows "processNotify md5 e now params db = (Response ''error'' 500, db)"
  using assms by (auto simp: processNotify_def settle_def claimCard_def)

text \<open>A \<open>money\<close> field that does not parse to a number passes the amount gate.\<close>

lemma amount_gate_NaN:
  "parseFloat (to_str (get params ''money'')) = NaN \<Longrightarrow> \<not> amount_mismatch params ord"
  by (simp add: amount_mismatch_def)

text \<open>
  C1. Replay is a no-op: a notification that passes the signature, outcome and amount
  gates for an order that is already \<open>paid\<close> or \<open>delivered\<close> changes nothing and is
  answered with \<open>success\<close>; the handler changes the state only for an order that is
  \<open>pending\<close> or \<open>cancelled\<close>.
\<close>

theorem settle_replay_noop:
  assumes "sign_ok md5 e params"
    and "get params ''trade_status'' = Some ''TRADE_SUCCESS''"
    and "get params ''out_trade_no'' = Some oid"
    and "findOrder oid db = Some ord"
    and "\<not> amount_mismatch params ord"
  shows "(status ord = ''paid'' \<or> status ord = ''delivered''
            \<longrightarrow> processNotify md5 e now params db = (Response ''success'' 200, db))
       \<and> (snd (processNotify md5 e now params db) \<noteq> db
            \<longrightarrow> status ord = ''pending'' \<or> status ord = ''cancelled'')"
  using assms by (auto simp add: processNotify_def)

theorem settle_replay_noop_witness:
  "processNotify toy_md5 demo_env 110000 (gateway_notify ''O0'' ''10.00'') demo_shop
     = (Response ''success'' 200, demo_shop)
   \<and> snd (processNotify toy_md5 demo_env 110000 (gateway_notify ''O1'' ''10.00'') demo_shop) \<noteq> demo_shop
   \<and> status (demo_order ''O1'' ''pending'' 0) = ''pending''"
proof -
  have 1: "sign_ok toy_md5 demo_env (gateway_notify ''O0'' ''10.00'')" by code_simp
  have 2: "get (gateway_notify ''O0'' ''10.00'') ''trade_status'' = Some ''TRADE_SUCCESS''" by code_simp
  have 3: "get (gateway_notify ''O0'' ''10.00'') ''out_trade_no'' = Some ''O0''" by code_simp
  have 4: "findOrder ''O0'' demo_shop = Some (demo_order ''O0'' ''delivered'' 0)" by code_simp
  have 5: "\<not> amount_mismatch (gateway_notify ''O0'' ''10.00'') (demo_order ''O0'' ''delivered'' 0)"
    by code_simp
  have a: "processNotify toy_md5 demo_env 110000 (gateway_notify ''O0'' ''10.00'') demo_shop
             = (Response ''success'' 200, demo_shop)"
    using settle_replay_noop[OF 1 2 3 4 5, where now = 110000] by (simp add: demo_order_def)
  have 6: "sign_ok toy_md5 demo_env (gateway_notify ''O1'' ''10.00'')" by code_simp
  have 7: "get (gateway_notify ''O1'' ''10.00'') ''trade_status'' = Some ''TRADE_SUCCESS''" by code_simp
  have 8: "get (gateway_notify ''O1'' ''10.00'') ''out_trade_no'' = Some ''O1''" by code_simp
  have 9: "findOrder ''O1'' demo_shop = Some (demo_order ''O1'' ''pending'' 0)" by code_simp
  have 10: "\<not> amount_mismatch (gateway_notify ''O1'' ''10.00'') (demo_order ''O1'' ''pending'' 0)"
    by code_simp
  have 11: "snd (processNotify toy_md5 demo_env 110000 (gateway_notify ''O1'' ''10.00'') demo_shop) \<noteq> demo_shop"
    by code_simp
  have b: "status (demo_order ''O1'' ''pending'' 0) = ''pending''"
    using settle_replay_noop[OF 6 7 8 9 10, where now = 110000] 11 by (simp add: demo_order_def)
  from a 11 b show ?thesis by simp
qed

text \<open>
  C2, as the claim states it, fails: a signed \<open>TRADE_SUCCESS\<close> notification for the
  unknown order \<open>O9\<close> is answered with \<open>success\<close> (status 200), not rejected.
\<close>

theorem unknown_order_counterexample:
  "sign_ok toy_md5 demo_env (gateway_notify ''O9'' ''10.00'')
   \<and> get (gateway_notify ''O9'' ''10.00'') ''trade_status'' = Some ''TRADE_SUCCESS''
   \<and> findOrder ''O9'' demo_shop = None
   \<and> fst (processNotify toy_md5 demo_env 110000 (gateway_notify ''O9'' ''10.00'') demo_shop)
       = Response ''success'' 200"
  by code_simp

text \<open>
  C2, amended: a notification that passes the signature check with outcome
  \<open>TRADE_SUCCESS\<close> and names an order id that no order has is acknowledged with
  \<open>success\<close> and changes no state.
\<close>

theorem unknown_order_acknowledged:
  assumes "sign_ok md5 e params"
    and "get params ''trade_status'' = Some ''TRADE_SUCCESS''"
    and "get params ''out_trade_no'' = Some oid"
    and "findOrder oid db = None"
  shows "processNotify md5 e now params db = (Response ''success'' 200, db)"
  using assms by (simp add: processNotify_def)

theorem unknown_order_acknowledged_witness:
  "findOrder ''O7'' demo_shop = None
   \<and> processNotify toy_md5 demo_env 200000 (gateway_notify ''O7'' ''10.00'') demo_shop
       = (Response ''success'' 200, demo_shop)"
proof -
  have 1: "sign_ok toy_md5 demo_env (gateway_notify ''O7'' ''10.00'')" by code_simp
  have 2: "get (gateway_notify ''O7'' ''10.00'') ''trade_status'' = Some ''TRADE_SUCCESS''" by code_simp
  have 3: "get (gateway_notify ''O7'' ''10.00'') ''out_trade_no'' = Some ''O7''" by code_simp
  have 4: "findOrder ''O7'' demo_shop = None" by code_simp
  show ?thesis using unknown_order_acknowledged[OF 1 2 3 4, of 200000] 4 by simp
qed









section \<open>The expiry reaper\<close>

lemma orders_cancelExpiredOrders:
  "orders (snd (cancelExpiredOrders now f db))
     = map (\<lambda>r. if expired now f r then r\<lparr>status := ''cancelled''\<rparr> else r) (orders db)"
  by (simp add: cancelExpiredOrders_def cancelOrders_def Let_def)

lemma cards_cancelExpiredOrders:
  "cards (snd (cancelExpiredOrders now f db)) =
     releaseHolds (filter (\<lambda>i. i \<noteq> []) (snd (cancelOrders now f db))) (cards db)"
  by (simp add: cancelExpiredOrders_def cancelOrders_def releaseHolds_def Let_def)

lemma held_by_release: "\<not> held_by j (release c)"
  by (simp add: held_by_def release_def)

lemma releaseHolds_eq:
  "releaseHolds ids cs = map (\<lambda>c. if (\<exists>i\<in>set ids. held_by i c) then release c else c) cs"
proof (induction ids arbitrary: cs)
  case Nil
  then show ?case by (simp add: releaseHolds_def)
next
  case (Cons i ids)
  have "releaseHolds (i # ids) cs = releaseHolds ids (releaseHold i cs)"
    by (simp add: releaseHolds_def)
  also have "\<dots> = map (\<lambda>c. if (\<exists>j\<in>set ids. held_by j c) then release c else c) (releaseHold i cs)"
    by (rule Cons.IH)
  also have "\<dots> = map (\<lambda>c. if (\<exists>j\<in>set (i # ids). held_by j c) then release c else c) cs"
    by (auto simp: releaseHold_def held_by_release)
  finally show ?case .
qed

text \<open>
  C7. In a store whose order ids are non-empty, the reaper sets to \<open>cancelled\<close> exactly
  the orders that are \<open>pending\<close>, created more than five minutes ago and matched by the
  filter, returns exactly their ids, and clears the hold fields of exactly the units that
  point at one of those ids and are unconsumed; no other order or unit changes. The
  Workers variant of the function is the same statements without the transaction.
\<close>

theorem reaper_exact:
  assumes "\<forall>r\<in>set (orders db). orderId r \<noteq> []"
  shows "fst (cancelExpiredOrders now f db) = map orderId (filter (expired now f) (orders db))
       \<and> orders (snd (cancelExpiredOrders now f db))
           = map (\<lambda>r. if expired now f r then r\<lparr>status := ''cancelled''\<rparr> else r) (orders db)
       \<and> cards (snd (cancelExpiredOrders now f db))
           = map (\<lambda>c. if (\<exists>i\<in>set (fst (cancelExpiredOrders now f db)). reserved_order_id c = Some i)
                             \<and> is_used c \<noteq> Some True
                        then c\<lparr>reserved_order_id := None, reserved_at := None\<rparr> else c) (cards db)
       \<and> products (snd (cancelExpiredOrders now f db)) = products db"
proof -
  have ids: "filter (\<lambda>i. i \<noteq> []) (map orderId (filter (expired now f) (orders db)))
               = map orderId (filter (expired now f) (orders db))"
    using assms by (simp add: filter_id_conv)
  have 1: "fst (cancelExpiredOrders now f db) = map orderId (filter (expired now f) (orders db))"
    by (simp add: cancelExpiredOrders_def cancelOrders_def Let_def ids)
  have 2: "orders (snd (cancelExpiredOrders now f db))
           = map (\<lambda>r. if expired now f r then r\<lparr>status := ''cancelled''\<rparr> else r) (orders db)"
    by (simp add: cancelExpiredOrders_def cancelOrders_def Let_def)
  have 3: "cards (snd (cancelExpiredOrders now f db))
             = releaseHolds (fst (cancelExpiredOrders now f db)) (cards db)"
    by (simp add: cancelExpiredOrders_def cancelOrders_def Let_def releaseHolds_def)
  have 4: "products (snd (cancelExpiredOrders now f db)) = products db"
    by (simp add: cancelExpiredOrders_def cancelOrders_def Let_def)
  show ?thesis
    unfolding 3 releaseHolds_eq using 1 2 4
    by (simp add: held_by_def unused_def release_def conj_commute cong: conj_cong)
qed

theorem reaper_exact_witness:
  "fst (cancelExpiredOrders 500000 product_filter demo_shop) = [''O1'', ''O2'']
   \<and> map status (orders (snd (cancelExpiredOrders 500000 product_filter demo_shop)))
       = [''delivered'', ''cancelled'', ''cancelled'', ''cancelled'']
   \<and> map reserved_order_id (cards (snd (cancelExpiredOrders 500000 product_filter demo_shop)))
       = [None, None]"
proof -
  have h: "\<forall>r\<in>set (orders demo_shop). orderId r \<noteq> []" by code_simp
  have 1: "map orderId (filter (expired 500000 product_filter) (orders demo_shop)) = [''O1'', ''O2'']"
    by code_simp
  have 2: "map status (orders (snd (cancelExpiredOrders 500000 product_filter demo_shop)))
       = [''delivered'', ''cancelled'', ''cancelled'', ''cancelled'']" by code_simp
  have 3: "map reserved_order_id (cards (snd (cancelExpiredOrders 500000 product_filter demo_shop)))
       = [None, None]" by code_simp
  show ?thesis
    using reaper_exact[OF h, of 500000 product_filter] 1 2 3 by simp
qed

section \<open>Consumed is terminal\<close>

lemma consumed_kept_refl: "consumed_kept cs cs"
  by (simp add: consumed_kept_def)

lemma consumed_kept_trans:
  "consumed_kept a b \<Longrightarrow> consumed_kept b c \<Longrightarrow> consumed_kept a c"
  by (auto simp: consumed_kept_def)

lemma consumed_kept_map:
  "(\<And>c. is_used c = Some True \<Longrightarrow> g c = c) \<Longrightarrow> consumed_kept cs (map g cs)"
  by (simp add: consumed_kept_def)

lemma consumed_kept_update_first:
  "(\<And>c. P c \<Longrightarrow> unused c) \<Longrightarrow> consumed_kept cs (update_first P g cs)"
  by (auto simp: consumed_kept_def length_update_first unused_def intro!: nth_update_first)

lemma consumed_kept_releaseHold: "consumed_kept cs (releaseHold oid cs)"
  unfolding releaseHold_def by (rule consumed_kept_map) (simp add: held_by_def unused_def)

lemma consumed_kept_releaseHolds: "consumed_kept cs (releaseHolds ids cs)"
proof (induction ids arbitrary: cs)
  case Nil
  then show ?case by (simp add: releaseHolds_def consumed_kept_refl)
next
  case (Cons i ids)
  have "consumed_kept (releaseHold i cs) (releaseHolds ids (releaseHold i cs))"
    by (rule Cons.IH)
  then show ?case
    using consumed_kept_trans[OF consumed_kept_releaseHold]
    by (simp add: releaseHolds_def)
qed

lemma consumed_kept_finalizeHeld: "consumed_kept cs (fst (finalizeHeld now oid cs))"
  unfolding finalizeHeld_def fst_conv by (rule consumed_kept_map) (simp add: held_by_def unused_def)

lemma consumed_kept_claimFree: "consumed_kept cs (fst (claimFree now pid cs))"
  unfolding claimFree_def fst_conv by (rule consumed_kept_update_first) (simp add: claimable_def)

lemma consumed_kept_claimLegacy: "consumed_kept cs (fst (claimLegacy now pid cs))"
  unfolding claimLegacy_def fst_conv by (rule consumed_kept_update_first) (simp add: legacy_claimable_def)

lemma consumed_kept_reserveCard: "consumed_kept cs (reserveCard now oid pid cs)"
  unfolding reserveCard_def by (rule consumed_kept_update_first) (simp add: claimable_def)

lemma consumed_kept_claimCard:
  assumes "claimCard now oid pid db = Some (cs', k')"
  shows "consumed_kept (cards db) cs'"
proof -
  obtain cs k where fh: "finalizeHeld now oid (cards db) = (cs, k)" by force
  have 1: "consumed_kept (cards db) cs"
    using consumed_kept_finalizeHeld[of "cards db" now oid] fh by simp
  have 2: "consumed_kept cs (fst (claimFree now pid cs))" by (rule consumed_kept_claimFree)
  show ?thesis
    using assms fh 1 consumed_kept_trans[OF 1 2]
    by (auto simp: claimCard_def split: if_splits)
qed

lemma consumed_kept_settle:
  "settle now oid t ord db = Some db' \<Longrightarrow> consumed_kept (cards db) (cards db')"
  by (auto simp: settle_def split: option.splits dest: consumed_kept_claimCard)

lemma consumed_kept_processNotify:
  "consumed_kept (cards db) (cards (snd (processNotify md5 e now params db)))"
  by (auto simp: processNotify_def consumed_kept_refl split: option.splits
           dest: consumed_kept_settle)

lemma consumed_kept_cancelExpiredOrders:
  "consumed_kept (cards db) (cards (snd (cancelExpiredOrders now f db)))"
  by (simp add: cards_cancelExpiredOrders consumed_kept_releaseHolds)

lemma cards_ensureDefaults:
  "cards (ensureCardsIsUsedDefaults db) =
     map (\<lambda>c. if is_used c = None then c\<lparr>is_used := Some False\<rparr> else c) (cards db)"
  by (simp add: ensureCardsIsUsedDefaults_def)

lemma consumed_kept_checkStock: "consumed_kept (cards db) (cards (snd (checkStock now pid db)))"
  by (simp add: checkStock_def Let_def ensureCardsReservationColumns_def consumed_kept_refl
        cards_ensureDefaults consumed_kept_map)

lemma consumed_kept_reserveAndCreate:
  "reserveAndCreate now oid pid p usr mail db = Inr db' \<Longrightarrow> consumed_kept (cards db) (cards db')"
  by (auto simp: reserveAndCreate_def consumed_kept_reserveCard split: if_splits)

lemma cards_ensureCols: "cards (ensureCardsReservationColumns db) = cards db"
  by (simp add: ensureCardsReservationColumns_def)

lemma cards_finish: "cards (snd (finish l e oid p db)) = cards db"
  by (simp add: finish_def)

lemma consumed_kept_after_stock:
  "consumed_kept (cards db2)
     (cards (snd (case reserveAndCreate now oid pid p usr mail db2 of
                    Inr db3 \<Rightarrow> finish l e oid p db3
                  | Inl StockLocked \<Rightarrow> (Failure ''buy.stockLocked'', db2)
                  | Inl UndefinedColumn \<Rightarrow>
                      (case reserveAndCreate now oid pid p usr mail (ensureCardsReservationColumns db2) of
                         Inr db3 \<Rightarrow> finish l e oid p db3
                       | Inl StockLocked \<Rightarrow> (Failure ''buy.stockLocked'', ensureCardsReservationColumns db2)
                       | Inl _ \<Rightarrow> (Throws, ensureCardsReservationColumns db2))
                  | Inl UniqueViolation \<Rightarrow> (Throws, db2))))"
  using consumed_kept_reserveAndCreate[of now oid pid p usr mail db2]
        consumed_kept_reserveAndCreate[of now oid pid p usr mail "ensureCardsReservationColumns db2"]
  by (auto simp: cards_finish cards_ensureCols consumed_kept_refl split: sum.splits db_error.splits)

lemma consumed_kept_createOrder:
  "consumed_kept (cards db) (cards (snd (createOrder l e usr now pid mail db)))"
proof (cases "find (\<lambda>p. prod_id p = pid) (products db)")
  case None
  then show ?thesis by (simp add: createOrder_def consumed_kept_refl)
next
  case (Some p)
  define db1 where "db1 = snd (cancelExpiredOrders now \<lparr>f_productId = Some pid, f_userId = None, f_orderId = None\<rparr> db)"
  obtain stock db2 where cs: "checkStock now pid db1 = (stock, db2)" by force
  have 1: "consumed_kept (cards db) (cards db1)"
    unfolding db1_def by (rule consumed_kept_cancelExpiredOrders)
  have 2: "consumed_kept (cards db1) (cards db2)"
    using consumed_kept_checkStock[of db1 now pid] cs by simp
  have 12: "consumed_kept (cards db) (cards db2)" by (rule consumed_kept_trans[OF 1 2])
  show ?thesis
    using Some cs 12 consumed_kept_trans[OF 12 consumed_kept_after_stock]
    by (simp add: createOrder_def db1_def[symmetric] Let_def)
qed

text \<open>
  C8. Consumed is terminal: the reservation claim, the settlement's finalize, fallback
  claim and legacy claim, the release of one order's holds and of any list of orders'
  holds, and the three operations built from them (\<open>createOrder\<close>, \<open>processNotify\<close>,
  \<open>cancelExpiredOrders\<close>) leave every consumed unit exactly as it was. The release step
  does so from any state of the table, also one a settlement has just written.
\<close>

theorem consumed_is_terminal:
  "consumed_kept cs (reserveCard now oid pid cs)
   \<and> consumed_kept cs (fst (finalizeHeld now oid cs))
   \<and> consumed_kept cs (fst (claimFree now pid cs))
   \<and> consumed_kept cs (fst (claimLegacy now pid cs))
   \<and> consumed_kept cs (releaseHold oid cs)
   \<and> consumed_kept cs (releaseHolds ids cs)
   \<and> consumed_kept (cards db) (cards (snd (createOrder l e usr now pid mail db)))
   \<and> consumed_kept (cards db) (cards (snd (processNotify md5 e now params db)))
   \<and> consumed_kept (cards db) (cards (snd (cancelExpiredOrders now f db)))"
  by (simp add: consumed_kept_reserveCard consumed_kept_finalizeHeld consumed_kept_claimFree
        consumed_kept_claimLegacy consumed_kept_releaseHold consumed_kept_releaseHolds
        consumed_kept_createOrder consumed_kept_processNotify consumed_kept_cancelExpiredOrders)

theorem consumed_is_terminal_witness:
  "snd (cancelOrders 500000 product_filter demo_shop)
     = [''O1'', ''O2'']
   \<and> map is_used (cards demo_shop) = [Some True, Some False]
   \<and> map is_used (cards raced) = [Some True, Some True]
   \<and> releaseHolds [''O1'', ''O2''] (cards raced) ! 1 = cards raced ! 1"
proof -
  have k: "consumed_kept (cards raced) (releaseHolds [''O1'', ''O2''] (cards raced))"
    using consumed_is_terminal[where cs = "cards raced" and ids = "[''O1'', ''O2'']"] by simp
  have 1: "snd (cancelOrders 500000 product_filter demo_shop)
     = [''O1'', ''O2'']" by code_simp
  have 2: "map is_used (cards demo_shop) = [Some True, Some False]" by code_simp
  have 3: "map is_used (cards raced) = [Some True, Some True]" by code_simp
  have 4: "length (cards raced) = 2" using 3 by (metis length_map length_Cons list.size(3) numeral_2_eq_2)
  have 5: "is_used (cards raced ! 1) = Some True" by code_simp
  from k 4 5 have "releaseHolds [''O1'', ''O2''] (cards raced) ! 1 = cards raced ! 1"
    by (simp add: consumed_kept_def)
  with 1 2 3 show ?thesis by simp
qed

section \<open>Order creation\<close>

lemma orders_checkStock: "orders (snd (checkStock now pid db)) = orders db"
  by (simp add: checkStock_def Let_def ensureCardsReservationColumns_def ensureCardsIsUsedDefaults_def)

lemma claimable_defaults:
  "claimable now pid (if is_used c = None then c\<lparr>is_used := Some False\<rparr> else c) = claimable now pid c"
  by (simp add: claimable_def unused_def hold_free_def)

lemma stock_defaults:
  "getAvailableStock now pid (ensureCardsIsUsedDefaults db) = getAvailableStock now pid db"
  by (simp add: getAvailableStock_def ensureCardsIsUsedDefaults_def filter_map o_def claimable_defaults)

lemma fst_checkStock: "fst (checkStock now pid db) = length (filter (claimable now pid) (cards db))"
proof -
  have "getAvailableStock now pid (ensureCardsReservationColumns db) = getAvailableStock now pid db"
    by (simp add: getAvailableStock_def ensureCardsReservationColumns_def)
  then show ?thesis
    by (simp add: checkStock_def Let_def stock_defaults) (simp add: getAvailableStock_def)
qed

lemma claimable_releaseHold:
  "claimable now pid c \<Longrightarrow> claimable now pid (if held_by i c then release c else c)"
  by (simp add: claimable_def release_def unused_def hold_free_def)

lemma list_ex_releaseHolds:
  "list_ex (claimable now pid) cs \<Longrightarrow> list_ex (claimable now pid) (releaseHolds ids cs)"
proof (induction ids arbitrary: cs)
  case Nil
  then show ?case by (simp add: releaseHolds_def)
next
  case (Cons i ids)
  from Cons.prems obtain c where c: "c \<in> set cs" "claimable now pid c"
    by (auto simp: list_ex_iff)
  then have "(if held_by i c then release c else c) \<in> set (releaseHold i cs)"
    by (simp add: releaseHold_def)
  with c(2) have "list_ex (claimable now pid) (releaseHold i cs)"
    unfolding list_ex_iff using claimable_releaseHold by blast
  then have "list_ex (claimable now pid) (releaseHolds ids (releaseHold i cs))"
    by (rule Cons.IH)
  then show ?case by (simp add: releaseHolds_def)
qed

lemma stock_after_reaper:
  assumes "list_ex (claimable now pid) (cards db)"
  shows "0 < fst (checkStock now pid (snd (cancelExpiredOrders now f db)))"
proof -
  have "list_ex (claimable now pid) (cards (snd (cancelExpiredOrders now f db)))"
    unfolding cards_cancelExpiredOrders using assms by (rule list_ex_releaseHolds)
  then show ?thesis
    by (auto simp: fst_checkStock list_ex_iff filter_empty_conv)
qed

lemma counted_cancel:
  "(status (if expired now f r then r\<lparr>status := ''cancelled''\<rparr> else r) = ''paid''
      \<or> status (if expired now f r then r\<lparr>status := ''cancelled''\<rparr> else r) = ''delivered'')
   = (status r = ''paid'' \<or> status r = ''delivered'')"
  by (auto simp: expired_def)

lemma existingCount_reaper:
  "existingCount pid a b (snd (cancelExpiredOrders now f db)) = existingCount pid a b db"
proof -
  have "\<And>r. (productId (if expired now f r then r\<lparr>status := ''cancelled''\<rparr> else r) = pid
          \<and> buyer_matches a b (if expired now f r then r\<lparr>status := ''cancelled''\<rparr> else r)
          \<and> (status (if expired now f r then r\<lparr>status := ''cancelled''\<rparr> else r) = ''paid''
             \<or> status (if expired now f r then r\<lparr>status := ''cancelled''\<rparr> else r) = ''delivered''))
        = (productId r = pid \<and> buyer_matches a b r \<and> (status r = ''paid'' \<or> status r = ''delivered''))"
    by (auto simp: expired_def buyer_matches_def)
  then show ?thesis
    by (simp add: existingCount_def orders_cancelExpiredOrders filter_map o_def)
qed

lemma existingCount_orders:
  "orders db' = orders db \<Longrightarrow> existingCount pid a b db' = existingCount pid a b db"
  by (simp add: existingCount_def)

lemma existingCount_checkStock:
  "existingCount pid a b (snd (checkStock now pid db)) = existingCount pid a b db"
  by (rule existingCount_orders[OF orders_checkStock])

lemma limitExceeded_stage:
  "limitExceeded usr mail p pid (snd (checkStock now pid (snd (cancelExpiredOrders now f db))))
     = limitExceeded usr mail p pid db"
  by (simp add: limitExceeded_def existingCount_checkStock existingCount_reaper
        split: option.splits)

lemma finish_not_failure: "fst (finish l e oid p db) \<noteq> Failure msg"
  by (simp add: finish_def payDescriptor_def Let_def)

lemma after_limit_not_limit:
  "fst (case reserveAndCreate now oid pid p usr mail db2 of
          Inr db3 \<Rightarrow> finish l e oid p db3
        | Inl StockLocked \<Rightarrow> (Failure ''buy.stockLocked'', db2)
        | Inl UndefinedColumn \<Rightarrow>
            (case reserveAndCreate now oid pid p usr mail (ensureCardsReservationColumns db2) of
               Inr db3 \<Rightarrow> finish l e oid p db3
             | Inl StockLocked \<Rightarrow> (Failure ''buy.stockLocked'', ensureCardsReservationColumns db2)
             | Inl _ \<Rightarrow> (Throws, ensureCardsReservationColumns db2))
        | Inl UniqueViolation \<Rightarrow> (Throws, db2)) \<noteq> Failure ''buy.limitExceeded''"
  by (simp add: finish_not_failure split: sum.splits db_error.splits)

lemma createOrder_not_found:
  "find (\<lambda>p. prod_id p = pid) (products db) = None
   \<Longrightarrow> createOrder l e usr now pid mail db = (Failure ''buy.productNotFound'', db)"
  by (simp add: createOrder_def)

lemma createOrder_limit_only_if:
  assumes "find (\<lambda>p. prod_id p = pid) (products db) = Some p"
    and "fst (createOrder l e usr now pid mail db) = Failure ''buy.limitExceeded''"
  shows "limitExceeded usr mail p pid db"
proof -
  define db1 where "db1 = snd (cancelExpiredOrders now \<lparr>f_productId = Some pid, f_userId = None, f_orderId = None\<rparr> db)"
  obtain stock db2 where cs: "checkStock now pid db1 = (stock, db2)" by force
  from cs have db2: "db2 = snd (checkStock now pid db1)" by simp
  have le: "limitExceeded usr mail p pid db2 = limitExceeded usr mail p pid db"
    unfolding db2 db1_def by (rule limitExceeded_stage)
  show ?thesis
    using assms cs le after_limit_not_limit[where ?db2.0 = db2]
    by (simp add: createOrder_def db1_def[symmetric] Let_def split: if_splits)
qed

lemma createOrder_limit_if:
  assumes "find (\<lambda>p. prod_id p = pid) (products db) = Some p"
    and "list_ex (claimable now pid) (cards db)"
    and "limitExceeded usr mail p pid db"
  shows "fst (createOrder l e usr now pid mail db) = Failure ''buy.limitExceeded''"
proof -
  define db1 where "db1 = snd (cancelExpiredOrders now \<lparr>f_productId = Some pid, f_userId = None, f_orderId = None\<rparr> db)"
  obtain stock db2 where cs: "checkStock now pid db1 = (stock, db2)" by force
  from cs have db2: "db2 = snd (checkStock now pid db1)" and st: "stock = fst (checkStock now pid db1)"
    by simp_all
  have le: "limitExceeded usr mail p pid db2"
    unfolding db2 db1_def using assms(3) by (simp only: limitExceeded_stage)
  have "0 < stock"
    unfolding st db1_def using assms(2) by (rule stock_after_reaper)
  then show ?thesis
    using assms(1) cs le by (simp add: createOrder_def db1_def[symmetric] Let_def)
qed

text \<open>
  C5. \<open>createOrder\<close> is to reject a product that does not exist or is inactive,
  without creating an order, reserving stock or producing a payment descriptor. A
  missing product is rejected (\<open>createOrder_not_found\<close>). An inactive one is not: the
  code never reads the active flag. Here product \<open>P\<close> is switched off (\<open>isActive\<close> is
  false), yet \<open>createOrder\<close> reserves a unit for the new order \<open>O4\<close>, inserts the order
  and returns the payment descriptor.
\<close>

theorem inactive_product_ordered:
  "map prod_id (products demo_shop) = [''P'']
   \<and> map isActive (products demo_shop) = [Some False]
   \<and> fst (createOrder demo_lib demo_env None 400000 ''P'' None demo_shop)
       = Success ''https://credit.linux.do/epay/pay/submit.php''
           [(''pid'', Some ''1001''), (''type'', Some ''epay''), (''out_trade_no'', Some ''O4''),
            (''notify_url'', Some ''http://localhost:3000/api/notify''),
            (''return_url'', Some ''http://localhost:3000/callback/O4''),
            (''name'', Some ''Gift''), (''money'', Some ''10.00''), (''sign_type'', Some ''MD5''),
            (''sign'', Some ''sig'')]
   \<and> map orderId (orders (snd (createOrder demo_lib demo_env None 400000 ''P'' None demo_shop)))
       = [''O0'', ''O1'', ''O2'', ''O3'', ''O4'']
   \<and> map reserved_order_id (cards (snd (createOrder demo_lib demo_env None 400000 ''P'' None demo_shop)))
       = [None, Some ''O4'']"
  by code_simp

text \<open>
  C6, as the claim states it, fails: buyer \<open>u1\<close> has reached the limit of product \<open>P\<close>,
  but no unit is free at time 110000, and \<open>createOrder\<close> fails with \<open>buy.outOfStock\<close>,
  not with the limit error: the stock check comes first.
\<close>

theorem purchase_limit_counterexample:
  "map purchaseLimit (products demo_shop) = [Some 1]
   \<and> existingCount ''P'' (currentUserId (Some demo_user)) (currentUserEmail (Some demo_user) None) demo_shop = 1
   \<and> fst (createOrder demo_lib demo_env (Some demo_user) 110000 ''P'' None demo_shop)
       = Failure ''buy.outOfStock''"
  by code_simp

text \<open>
  C6, amended: for a product with limit \<open>n > 0\<close> and a buyer with a user id or an
  email: when the buyer's count of \<open>paid\<close>/\<open>delivered\<close> orders of the product (matched by
  user id or email) has reached \<open>n\<close> and the product has a unit that is unconsumed and
  free or with an expired hold, \<open>createOrder\<close> fails with \<open>buy.limitExceeded\<close>; when the
  count is below \<open>n\<close>, it does not fail with that error.
\<close>

theorem purchase_limit_enforced:
  assumes "find (\<lambda>p. prod_id p = pid) (products db) = Some p"
    and "purchaseLimit p = Some n" and "0 < n"
    and "truthy (currentUserId usr) \<or> truthy (currentUserEmail usr mail)"
  shows "(list_ex (claimable now pid) (cards db)
          \<and> n \<le> existingCount pid (currentUserId usr) (currentUserEmail usr mail) db
            \<longrightarrow> fst (createOrder l e usr now pid mail db) = Failure ''buy.limitExceeded'')
       \<and> (existingCount pid (currentUserId usr) (currentUserEmail usr mail) db < n
            \<longrightarrow> fst (createOrder l e usr now pid mail db) \<noteq> Failure ''buy.limitExceeded'')"
proof -
  have "limitExceeded usr mail p pid db
          = (n \<le> existingCount pid (currentUserId usr) (currentUserEmail usr mail) db)"
    using assms(2,3,4) by (simp add: limitExceeded_def)
  then show ?thesis
    using createOrder_limit_if[OF assms(1), of now usr mail l e]
          createOrder_limit_only_if[OF assms(1), of l e usr now mail]
    by auto
qed

theorem purchase_limit_enforced_witness:
  "existingCount ''P'' (currentUserId (Some demo_user)) (currentUserEmail (Some demo_user) None) demo_shop = 1
   \<and> fst (createOrder demo_lib demo_env (Some demo_user) 400000 ''P'' None demo_shop)
       = Failure ''buy.limitExceeded''
   \<and> existingCount ''P'' (currentUserId (Some other_user)) (currentUserEmail (Some other_user) None) demo_shop = 0
   \<and> fst (createOrder demo_lib demo_env (Some other_user) 400000 ''P'' None demo_shop)
       \<noteq> Failure ''buy.limitExceeded''"
proof -
  have 1: "find (\<lambda>p. prod_id p = ''P'') (products demo_shop) = Some demo_product" by code_simp
  have 2: "purchaseLimit demo_product = Some 1" by code_simp
  have 3: "(0::int) < 1" by simp
  have 4: "truthy (currentUserId (Some demo_user)) \<or> truthy (currentUserEmail (Some demo_user) None)"
    by code_simp
  have u4: "truthy (currentUserId (Some other_user)) \<or> truthy (currentUserEmail (Some other_user) None)"
    by code_simp
  have 5: "list_ex (claimable 400000 ''P'') (cards demo_shop)" by code_simp
  have 6: "existingCount ''P'' (currentUserId (Some demo_user)) (currentUserEmail (Some demo_user) None) demo_shop = 1"
    by code_simp
  have u6: "existingCount ''P'' (currentUserId (Some other_user)) (currentUserEmail (Some other_user) None) demo_shop = 0"
    by code_simp
  show ?thesis
    using purchase_limit_enforced[OF 1 2 3 4, of 400000 demo_lib demo_env]
          purchase_limit_enforced[OF 1 2 3 u4, of 400000 demo_lib demo_env] 5 6 u6
    by simp
qed

text \<open>
  C10. For a product with a positive limit, a call with no signed-in user and no email
  (absent or empty) never fails with \<open>buy.limitExceeded\<close>, whatever orders exist.
\<close>

theorem anonymous_skips_limit:
  assumes "find (\<lambda>p. prod_id p = pid) (products db) = Some p"
    and "purchaseLimit p = Some n" and "0 < n"
    and "\<not> truthy mail"
  shows "fst (createOrder l e None now pid mail db) \<noteq> Failure ''buy.limitExceeded''"
proof -
  have "\<not> limitExceeded None mail p pid db"
    using assms(4) by (simp add: limitExceeded_def currentUserId_def currentUserEmail_def js_or_def truthy_def split: option.splits)
  then show ?thesis
    using createOrder_limit_only_if[OF assms(1), of l e None now mail] by blast
qed

theorem anonymous_skips_limit_witness:
  "map purchaseLimit (products demo_shop) = [Some 1]
   \<and> fst (createOrder demo_lib demo_env None 400000 ''P'' (Some []) demo_shop)
       \<noteq> Failure ''buy.limitExceeded''"
proof -
  have 1: "find (\<lambda>p. prod_id p = ''P'') (products demo_shop) = Some demo_product" by code_simp
  have 2: "purchaseLimit demo_product = Some 1" by code_simp
  have 3: "(0::int) < 1" by simp
  have 4: "\<not> truthy (Some [])" by code_simp
  have 5: "map purchaseLimit (products demo_shop) = [Some 1]" by code_simp
  show ?thesis
    using anonymous_skips_limit[OF 1 2 3 4, of demo_lib demo_env 400000] 5 by simp
qed

end
